theory Spec2Isabelle
  imports Complex_Main
begin

section \<open>Strings of the host language\<close>

text \<open>
  Texts are lists of 8-bit characters: every code unit of a text is below 256. The string
  methods the routes and the assistant call are written out here with the meaning they have
  on such texts.
\<close>

definition lower_letters :: string where
  "lower_letters = ''abcdefghijklmnopqrstuvwxyz''"

definition upper_letters :: string where
  "upper_letters = ''ABCDEFGHIJKLMNOPQRSTUVWXYZ''"

text \<open>\<open>toLowerCase\<close>: the letters A-Z and the Latin-1 capitals (192..222 except the
  multiplication sign 215) move to their small forms, 32 places up.\<close>

definition latin1_upper :: string where
  "latin1_upper =
    [CHR 0xC0, CHR 0xC1, CHR 0xC2, CHR 0xC3, CHR 0xC4, CHR 0xC5, CHR 0xC6, CHR 0xC7,
     CHR 0xC8, CHR 0xC9, CHR 0xCA, CHR 0xCB, CHR 0xCC, CHR 0xCD, CHR 0xCE, CHR 0xCF,
     CHR 0xD0, CHR 0xD1, CHR 0xD2, CHR 0xD3, CHR 0xD4, CHR 0xD5, CHR 0xD6, CHR 0xD8,
     CHR 0xD9, CHR 0xDA, CHR 0xDB, CHR 0xDC, CHR 0xDD, CHR 0xDE]"

definition latin1_lower :: string where
  "latin1_lower =
    [CHR 0xE0, CHR 0xE1, CHR 0xE2, CHR 0xE3, CHR 0xE4, CHR 0xE5, CHR 0xE6, CHR 0xE7,
     CHR 0xE8, CHR 0xE9, CHR 0xEA, CHR 0xEB, CHR 0xEC, CHR 0xED, CHR 0xEE, CHR 0xEF,
     CHR 0xF0, CHR 0xF1, CHR 0xF2, CHR 0xF3, CHR 0xF4, CHR 0xF5, CHR 0xF6, CHR 0xF8,
     CHR 0xF9, CHR 0xFA, CHR 0xFB, CHR 0xFC, CHR 0xFD, CHR 0xFE]"

definition lower_char :: "char \<Rightarrow> char" where
  "lower_char ch =
     (case map_of (zip (upper_letters @ latin1_upper) (lower_letters @ latin1_lower)) ch of
        Some l \<Rightarrow> l
      | None \<Rightarrow> ch)"

definition toLowerCase :: "string \<Rightarrow> string" where
  "toLowerCase s = map lower_char s"

text \<open>\<open>trim\<close> removes white space and line terminators at both ends: tab, line feed,
  vertical tab, form feed, carriage return, space and the no-break space.\<close>

definition white_space :: "char \<Rightarrow> bool" where
  "white_space ch =
     (ch \<in> set [CHR 0x09, CHR 0x0A, CHR 0x0B, CHR 0x0C, CHR 0x0D, CHR 0x20, CHR 0xA0])"

definition trim :: "string \<Rightarrow> string" where
  "trim s = rev (dropWhile white_space (rev (dropWhile white_space s)))"

fun starts_with :: "string \<Rightarrow> string \<Rightarrow> bool" where
  "starts_with s [] = True"
| "starts_with [] (p # ps) = False"
| "starts_with (x # xs) (p # ps) = (x = p \<and> starts_with xs ps)"

text \<open>\<open>s.includes(sub)\<close>\<close>

fun includes_str :: "string \<Rightarrow> string \<Rightarrow> bool" where
  "includes_str [] sub = starts_with [] sub"
| "includes_str (x # xs) sub = (starts_with (x # xs) sub \<or> includes_str xs sub)"

text \<open>\<open>s.split(sep)\<close>: the pieces between the occurrences of the separator, found from
  the left without overlap; an empty separator splits into single characters.\<close>

function split_from :: "string \<Rightarrow> string \<Rightarrow> string \<Rightarrow> string list" where
  "split_from sep acc [] = [rev acc]"
| "split_from [] acc (x # xs) = [x] # (if xs = [] then [] else split_from [] acc xs)"
| "split_from (p # ps) acc (x # xs) =
     (if starts_with (x # xs) (p # ps)
      then rev acc # split_from (p # ps) [] (drop (length ps) xs)
      else split_from (p # ps) (x # acc) xs)"
  by pat_completeness auto
termination
  by (relation "measure (\<lambda>(sep, acc, s). length s)") auto

definition split :: "string \<Rightarrow> string \<Rightarrow> string list" where
  "split s sep = (if s = [] \<and> sep = [] then [] else split_from sep [] s)"

section \<open>Regular expressions\<close>

text \<open>
  The command patterns are regular-expression literals with the flag \<open>i\<close>. The matcher
  below is the backtracking matcher of the language: for a pattern, an input position and
  the captures so far it lists every way to match, in the order in which backtracking tries
  them, so that the head of the list is the match the engine reports.
\<close>

text \<open>Under the flag \<open>i\<close> two characters match when their canonical forms are equal. The
  canonical form of a-z is A-Z; no character above 127 has a canonical form below 128, and
  the patterns are ASCII, so the other characters stand for themselves.\<close>

definition canonicalize :: "char \<Rightarrow> char" where
  "canonicalize ch =
     (case map_of (zip lower_letters upper_letters) ch of Some u \<Rightarrow> u | None \<Rightarrow> ch)"

datatype regex =
    Lit string
  | Cls string
  | Dot
  | Seq regex regex
  | Alt regex regex
  | Rep nat "nat option" bool regex
  | Grp nat regex

text \<open>\<open>Lit\<close> is a run of pattern characters, \<open>Cls\<close> a character class given by its
  members, \<open>Dot\<close> the wildcard, \<open>Rep mn mx greedy r\<close> the quantifier \<open>{mn,mx}\<close> (no upper
  bound when \<open>mx = None\<close>), lazy when \<open>greedy\<close> is false, and \<open>Grp i r\<close> the \<open>i\<close>-th
  capturing group.\<close>

type_synonym captures = "(nat \<times> string) list"

fun lit_match :: "string \<Rightarrow> string \<Rightarrow> string option" where
  "lit_match [] s = Some s"
| "lit_match (p # ps) [] = None"
| "lit_match (p # ps) (x # xs) =
     (if canonicalize p = canonicalize x then lit_match ps xs else None)"

definition line_terminator :: "char \<Rightarrow> bool" where
  "line_terminator ch = (ch = CHR 0x0A \<or> ch = CHR 0x0D)"

fun rsize :: "regex \<Rightarrow> nat" where
  "rsize (Lit l) = 1"
| "rsize (Cls m) = 1"
| "rsize Dot = 1"
| "rsize (Seq a b) = Suc (rsize a + rsize b)"
| "rsize (Alt a b) = Suc (rsize a + rsize b)"
| "rsize (Rep mn mx g r) = Suc (mn + rsize r)"
| "rsize (Grp i r) = Suc (rsize r)"

text \<open>
  \<open>run r s c\<close>: the input left and the captures after each way of matching \<open>r\<close> at the
  front of \<open>s\<close>, most preferred first. A greedy quantifier prefers one more iteration to
  stopping, a lazy one stopping to one more iteration; a quantifier whose minimum is used up
  gives up an iteration that consumed nothing, as the language prescribes. No match leaves
  more input than it found (\<open>run_shorter\<close> below); the tests that say so are there for
  the termination of the recursion.
\<close>

function run :: "regex \<Rightarrow> string \<Rightarrow> captures \<Rightarrow> (string \<times> captures) list" where
  "run (Lit l) s c = (case lit_match l s of None \<Rightarrow> [] | Some rest \<Rightarrow> [(rest, c)])"
| "run (Cls m) s c =
     (case s of [] \<Rightarrow> []
      | x # xs \<Rightarrow> if canonicalize x \<in> set (map canonicalize m) then [(xs, c)] else [])"
| "run Dot s c =
     (case s of [] \<Rightarrow> [] | x # xs \<Rightarrow> if line_terminator x then [] else [(xs, c)])"
| "run (Seq a b) s c =
     concat (map (\<lambda>p. if length (fst p) \<le> length s then run b (fst p) (snd p) else [])
                 (run a s c))"
| "run (Alt a b) s c = run a s c @ run b s c"
| "run (Grp i r) s c =
     map (\<lambda>p. (fst p, (i, take (length s - length (fst p)) s) # snd p)) (run r s c)"
| "run (Rep mn mx g r) s c =
     (if mx = Some 0 then [(s, c)]
      else
        let more = concat (map (\<lambda>p.
              if length (fst p) < length s \<or> (0 < mn \<and> length (fst p) = length s)
              then run (Rep (mn - 1) (map_option (\<lambda>k. k - 1) mx) g r) (fst p) (snd p)
              else []) (run r s c))
        in if 0 < mn then more else if g then more @ [(s, c)] else (s, c) # more)"
  by pat_completeness auto
termination
  by (relation "measures [\<lambda>(r, s, c). length s, \<lambda>(r, s, c). rsize r]") auto

text \<open>A pattern without the flags \<open>g\<close> and \<open>y\<close> is tried at every start position from
  the left; the captures of the first success are the match, \<open>None\<close> is \<open>null\<close>.\<close>

fun search :: "regex \<Rightarrow> string \<Rightarrow> captures option" where
  "search r [] = (case run r [] [] of [] \<Rightarrow> None | p # _ \<Rightarrow> Some (snd p))"
| "search r (x # xs) =
     (case run r (x # xs) [] of [] \<Rightarrow> search r xs | p # _ \<Rightarrow> Some (snd p))"

text \<open>\<open>pattern.test(text)\<close>\<close>

definition test :: "regex \<Rightarrow> string \<Rightarrow> bool" where
  "test r s = (search r s \<noteq> None)"

text \<open>\<open>m[i]\<close> for a match \<open>m\<close>: the text of group \<open>i\<close>, \<open>None\<close> for \<open>undefined\<close>.\<close>

definition group :: "captures option \<Rightarrow> nat \<Rightarrow> string option" where
  "group m i = (case m of None \<Rightarrow> None | Some caps \<Rightarrow> map_of caps i)"

text \<open>The truth value of a text or \<open>undefined\<close> in a condition.\<close>

definition truthy :: "string option \<Rightarrow> bool" where
  "truthy v = (case v of None \<Rightarrow> False | Some s \<Rightarrow> s \<noteq> [])"

text \<open>\<open>!v\<close>\<close>

definition falsy :: "string option \<Rightarrow> bool" where
  "falsy v = (\<not> truthy v)"

fun seqs :: "regex list \<Rightarrow> regex" where
  "seqs [] = Lit []"
| "seqs [r] = r"
| "seqs (r # rs) = Seq r (seqs rs)"

fun alts :: "regex list \<Rightarrow> regex" where
  "alts [] = Lit []"
| "alts [r] = r"
| "alts (r # rs) = Alt r (alts rs)"

definition oneof :: "string list \<Rightarrow> regex" where
  "oneof ws = alts (map Lit ws)"

definition opt :: "regex \<Rightarrow> regex" where
  "opt r = Rep 0 (Some 1) True r"

definition letters :: string where
  "letters = lower_letters @ upper_letters"

definition quotes :: string where
  "quotes = [CHR 0x22, CHR 0x27]"

section \<open>The command router of the chat route\<close>

subsection \<open>COMMAND_PATTERNS\<close>

text \<open>Each pattern of the table that \<open>detectCommands\<close> uses, with the literal it is
  written as. \<open>seqs\<close> is concatenation, \<open>oneof\<close> an alternation of words, \<open>opt\<close> the
  quantifier \<open>?\<close>, \<open>Rep 1 None True\<close> is \<open>+\<close>, \<open>Rep 0 None True\<close> is \<open>*\<close>,
  \<open>Rep 1 None False\<close> is \<open>+?\<close> and \<open>Rep 1 (Some 5) True\<close> is \<open>{1,5}\<close>.\<close>

text \<open>\<open>weather\<close>: \<^verbatim>\<open>/(?:what's|what is|how's|how is) the weather(?: like)?(?: in| at)? ([a-zA-Z ]+)/i\<close>\<close>

definition weather_pattern :: regex where
  "weather_pattern = seqs [oneof [''what's'', ''what is'', ''how's'', ''how is''],
     Lit '' the weather'', opt (Lit '' like''), opt (oneof ['' in'', '' at'']), Lit '' '',
     Grp 1 (Rep 1 None True (Cls (letters @ '' '')))]"

text \<open>\<open>stockPrice\<close>: \<^verbatim>\<open>/(?:what's|what is|how's|how is) (?:the )?(?:stock|price)(?: (?:of|for))? ([A-Z]{1,5})/i\<close>\<close>

definition stockPrice_pattern :: regex where
  "stockPrice_pattern = seqs [oneof [''what's'', ''what is'', ''how's'', ''how is''], Lit '' '',
     opt (Lit ''the ''), oneof [''stock'', ''price''],
     opt (Seq (Lit '' '') (oneof [''of'', ''for''])), Lit '' '', Grp 1 (Rep 1 (Some 5) True (Cls upper_letters))]"

text \<open>\<open>news\<close>: \<^verbatim>\<open>/(?:show|get|fetch|tell) (?:me )?(?:the )?news(?: about| on| for)? ?([a-zA-Z ]*)/i\<close>\<close>

definition news_pattern :: regex where
  "news_pattern = seqs [oneof [''show'', ''get'', ''fetch'', ''tell''], Lit '' '',
     opt (Lit ''me ''), opt (Lit ''the ''), Lit ''news'',
     opt (oneof ['' about'', '' on'', '' for'']), opt (Lit '' ''),
     Grp 1 (Rep 0 None True (Cls (letters @ '' '')))]"

text \<open>\<open>translate\<close>: \<^verbatim>\<open>/(?:translate|convert) ["'](.+?)["'] (?:to|into) ([a-zA-Z]+)/i\<close>\<close>

definition translate_pattern :: regex where
  "translate_pattern = seqs [oneof [''translate'', ''convert''], Lit '' '', Cls quotes,
     Grp 1 (Rep 1 None False Dot), Cls quotes, Lit '' '', oneof [''to'', ''into''], Lit '' '',
     Grp 2 (Rep 1 None True (Cls letters))]"

text \<open>\<open>sentiment\<close>: \<^verbatim>\<open>/(?:analyze|check) (?:sentiment|feeling|emotion) (?:for|of|about) ["'](.+?)["']/i\<close>\<close>

definition sentiment_pattern :: regex where
  "sentiment_pattern = seqs [oneof [''analyze'', ''check''], Lit '' '',
     oneof [''sentiment'', ''feeling'', ''emotion''], Lit '' '', oneof [''for'', ''of'', ''about''],
     Lit '' '', Cls quotes, Grp 1 (Rep 1 None False Dot), Cls quotes]"

text \<open>\<open>help\<close>: \<^verbatim>\<open>/(?:help|assist|guidance|commands|what can you do)/i\<close>\<close>

definition help_pattern :: regex where
  "help_pattern = oneof [''help'', ''assist'', ''guidance'', ''commands'', ''what can you do'']"

text \<open>\<open>time\<close>: \<^verbatim>\<open>/(?:what|tell me)(?: is)? the (?:current )?time/i\<close>\<close>

definition time_pattern :: regex where
  "time_pattern = seqs [oneof [''what'', ''tell me''], opt (Lit '' is''), Lit '' the '',
     opt (Lit ''current ''), Lit ''time'']"

text \<open>\<open>date\<close>: \<^verbatim>\<open>/(?:what|tell me)(?: is)? (?:today's|the current) date/i\<close>\<close>

definition date_pattern :: regex where
  "date_pattern = seqs [oneof [''what'', ''tell me''], opt (Lit '' is''), Lit '' '',
     oneof [''today's'', ''the current''], Lit '' date'']"

text \<open>\<open>joke\<close>: \<^verbatim>\<open>/(?:tell|say)(?:me)? a joke/i\<close>\<close>

definition joke_pattern :: regex where
  "joke_pattern = seqs [oneof [''tell'', ''say''], opt (Lit ''me''), Lit '' a joke'']"

subsection \<open>detectCommands\<close>

datatype js_error = TypeError string | FetchError string | HttpError string

record detected =
  command :: "string option"
  params :: "string list"

text \<open>A method call on \<open>undefined\<close> throws.\<close>

definition trim_of :: "string option \<Rightarrow> js_error + string" where
  "trim_of v = (case v of None \<Rightarrow> Inl (TypeError ''trim'') | Some s \<Rightarrow> Inr (trim s))"

definition found :: "string \<Rightarrow> (js_error + string) list \<Rightarrow> js_error + detected" where
  "found name ps =
     (case [e. Inl e \<leftarrow> ps] of
        e # _ \<Rightarrow> Inl e
      | [] \<Rightarrow> Inr \<lparr>command = Some name, params = [p. Inr p \<leftarrow> ps]\<rparr>)"

definition detectCommands :: "string \<Rightarrow> js_error + detected" where
  "detectCommands text =
     (if test help_pattern text then Inr \<lparr>command = Some ''help'', params = []\<rparr>
      else if test time_pattern text then Inr \<lparr>command = Some ''time'', params = []\<rparr>
      else if test date_pattern text then Inr \<lparr>command = Some ''date'', params = []\<rparr>
      else if test joke_pattern text then Inr \<lparr>command = Some ''joke'', params = []\<rparr>
      else
        let weatherMatch = search weather_pattern text in
        if weatherMatch \<noteq> None \<and> truthy (group weatherMatch 1)
        then found ''weather'' [trim_of (group weatherMatch 1)]
        else
        let stockMatch = search stockPrice_pattern text in
        if stockMatch \<noteq> None \<and> truthy (group stockMatch 1)
        then found ''stock'' [trim_of (group stockMatch 1)]
        else
        let newsMatch = search news_pattern text in
        if newsMatch \<noteq> None
        then (if truthy (group newsMatch 1) then found ''news'' [trim_of (group newsMatch 1)]
              else Inr \<lparr>command = Some ''news'', params = [''general'']\<rparr>)
        else
        let translateMatch = search translate_pattern text in
        if translateMatch \<noteq> None \<and> truthy (group translateMatch 1)
           \<and> truthy (group translateMatch 2)
        then found ''translate''
               [trim_of (group translateMatch 1), trim_of (group translateMatch 2)]
        else
        let sentimentMatch = search sentiment_pattern text in
        if sentimentMatch \<noteq> None \<and> truthy (group sentimentMatch 1)
        then found ''sentiment'' [trim_of (group sentimentMatch 1)]
        else Inr \<lparr>command = None, params = []\<rparr>)"

text \<open>The order in which \<open>detectCommands\<close> consults the patterns, with the command name each
  one stands for.\<close>

definition router_order :: "(string \<times> regex) list" where
  "router_order = [(''help'', help_pattern), (''time'', time_pattern), (''date'', date_pattern),
     (''joke'', joke_pattern), (''weather'', weather_pattern), (''stock'', stockPrice_pattern), (''news'', news_pattern),
     (''translate'', translate_pattern), (''sentiment'', sentiment_pattern)]"

section \<open>The chat route\<close>

subsection \<open>The platform: objects, random numbers, requests to the inference service\<close>

text \<open>A lookup \<open>table[key]\<close> in one of the constant tables is a lookup among the
  keys the table is written with.\<close>

text \<open>\<open>xs[i]\<close>, with \<open>None\<close> for \<open>undefined\<close>.\<close>

definition element_at :: "'a list \<Rightarrow> nat \<Rightarrow> 'a option" where
  "element_at xs i = (if i < length xs then Some (xs ! i) else None)"

text \<open>\<open>Math.floor(Math.random() * n)\<close> for the random number \<open>u\<close>.\<close>

definition random_index :: "real \<Rightarrow> nat \<Rightarrow> nat" where
  "random_index u n = nat \<lfloor>u * real n\<rfloor>"

text \<open>\<open>xs.join(sep)\<close>\<close>

fun join :: "string \<Rightarrow> string list \<Rightarrow> string" where
  "join sep [] = []"
| "join sep [x] = x"
| "join sep (x # y # ys) = x @ sep @ join sep (y # ys)"

text \<open>\<open>xs.slice(-n)\<close>\<close>

definition slice_last :: "nat \<Rightarrow> 'a list \<Rightarrow> 'a list" where
  "slice_last n xs = drop (length xs - n) xs"

text \<open>
  A request to the inference service names the model and may carry an abort signal with a
  timeout in milliseconds. What comes back is decided outside the program: the request is
  rejected (the network fails, or the signal aborts it when the timeout passes), or a
  response arrives with a status outside 200..299, or with a body that is not JSON, or with
  a JSON body.
\<close>

record call =
  model :: string
  timeout :: "nat option"
  inputs :: string
  lang_params :: "(string \<times> string) option"

datatype 'j reply = Rejected string | Status nat | BadBody | Body 'j

text \<open>The JSON a generation model answers with: an array whose elements are \<open>null\<close> or
  objects with or without a text under \<open>generated_text\<close>, such an object itself,
  \<open>null\<close>, or a number, text or truth value.\<close>

datatype gen_item = ItemNull | Item "string option"

datatype gen_json = GenArray "gen_item list" | GenObject "string option" | GenNull | GenOther

record chat_env =
  fetch :: "call \<Rightarrow> gen_json reply"
  random :: "nat \<Rightarrow> real"
  localeTime :: string
  localeDate :: string

text \<open>\<open>random env k\<close> is the value of the \<open>k\<close>-th call of \<open>Math.random\<close> while one
  request is served.\<close>

subsection \<open>commandHandlers and executeCommand\<close>



definition fallbackResponses :: "string list" where
  "fallbackResponses =
    [''I'm still learning, but I'd be happy to help you with that if you could rephrase your question.'',
     ''I'm not sure I understood correctly. Could you please try asking in a different way?'',
     ''That's an interesting question. Let me think about it and get back to you.'',
     ''I'm having trouble processing that request. Could we try something else?'',
     ''I'd like to help with that, but I'm not sure I have the right information. Could you provide more details?'']"

record ConversationContext =
  previousTopic :: "string option"
  recentEntities :: "string list option"
  messageCount :: int
  lastCommand :: "string option"


subsection \<open>The generation path\<close>

definition primaryModel :: string where
  "primaryModel = ''google/flan-t5-xl''"

definition backupModel :: string where
  "backupModel = ''facebook/bart-large''"

definition promptText :: "string list \<Rightarrow> string \<Rightarrow> string" where
  "promptText conversationHistory message =
     (if conversationHistory \<noteq> []
      then join [CHR 0x0A] (slice_last 10 conversationHistory) @ [CHR 0x0A] else [])
     @ ''Human: '' @ message @ [CHR 0x0A] @ ''AI:''"

text \<open>The text taken from a parsed result, starting from the empty text: of a non-empty
  array the \<open>generated_text\<close> of its first element, or the empty text; of an object its
  \<open>generated_text\<close> when that is truthy. Reading a property of \<open>null\<close> throws.\<close>

definition read_generated :: "gen_json \<Rightarrow> js_error + string" where
  "read_generated result =
     (case result of
        GenArray [] \<Rightarrow> Inr []
      | GenArray (ItemNull # _) \<Rightarrow> Inl (TypeError ''generated_text'')
      | GenArray (Item g # _) \<Rightarrow> Inr (case g of None \<Rightarrow> [] | Some t \<Rightarrow> t)
      | GenObject g \<Rightarrow> Inr (case g of None \<Rightarrow> [] | Some t \<Rightarrow> t)
      | GenNull \<Rightarrow> Inl (TypeError ''generated_text'')
      | GenOther \<Rightarrow> Inr [])"

text \<open>One attempt: the request, the status check, the parse of the body and the reading
  of the text. Its value is the text, or what was thrown.\<close>

definition attempt :: "string \<Rightarrow> gen_json reply \<Rightarrow> js_error + string" where
  "attempt label rep =
     (case rep of
        Rejected msg \<Rightarrow> Inl (FetchError msg)
      | Status n \<Rightarrow> Inl (HttpError label)
      | BadBody \<Rightarrow> Inl (FetchError ''json'')
      | Body result \<Rightarrow> read_generated result)"

text \<open>The clean-up of the response: the piece after the first \<open>AI:\<close> when the text has
  one, otherwise the piece before the first \<open>Human:\<close> when it has one.\<close>

definition cleanup :: "string \<Rightarrow> js_error + string" where
  "cleanup aiResponse =
     (if includes_str aiResponse ''AI:''
      then trim_of (element_at (split aiResponse ''AI:'') 1)
      else if includes_str aiResponse ''Human:''
      then (case split aiResponse ''Human:'' of
              p # _ # _ \<Rightarrow> Inr (trim p)
            | _ \<Rightarrow> Inr aiResponse)
      else Inr aiResponse)"

record chat_response =
  status :: nat
  response :: "string option"
  error :: "string option"
  details :: "js_error option"
  context_out :: "ConversationContext option"
  detected_command :: "string option"
  command_params :: "string list"
  model_used :: "string option"

definition plain_response :: "nat \<Rightarrow> string option \<Rightarrow> chat_response" where
  "plain_response st r = \<lparr>status = st, response = r, error = None, details = None,
     context_out = None, detected_command = None, command_params = [], model_used = None\<rparr>"

definition pick_fallback :: "chat_env \<Rightarrow> nat \<Rightarrow> string option" where
  "pick_fallback env k =
     element_at fallbackResponses (random_index (random env k) (length fallbackResponses))"

text \<open>The handler of whatever the generation path throws: a fallback sentence, status 200.\<close>

definition api_failed :: "chat_env \<Rightarrow> nat \<Rightarrow> js_error \<Rightarrow> chat_response" where
  "api_failed env k apiError =
     (plain_response 200 (pick_fallback env k))
       \<lparr>error := Some ''API processing failed'', details := Some apiError\<rparr>"

text \<open>From the text of a model to the response: the fallback for an empty text, the
  clean-up, the fallback for a text that is empty or shorter than five characters.
  \<open>k\<close> counts the random numbers drawn so far.\<close>

definition finish :: "chat_env \<Rightarrow> ConversationContext \<Rightarrow> string \<Rightarrow> string \<Rightarrow> chat_response" where
  "finish env ctx raw used =
     (let first = (if raw = [] then (pick_fallback env 0, ''fallback'', 1)
                   else (Some raw, used, 0));
          aiResponse = fst first; modelUsed = fst (snd first); k = snd (snd first)
      in case (case aiResponse of None \<Rightarrow> Inl (TypeError ''includes'') | Some a \<Rightarrow> cleanup a) of
           Inl e \<Rightarrow> api_failed env k e
         | Inr cleaned \<Rightarrow>
             let short = (cleaned = [] \<or> length cleaned < 5)
             in (plain_response 200 (if short then pick_fallback env k else Some cleaned))
                  \<lparr>context_out := Some (ctx\<lparr>messageCount := messageCount ctx + 1\<rparr>),
                   model_used := Some (if short then ''fallback'' else modelUsed)\<rparr>)"

definition primary_call :: "string \<Rightarrow> call" where
  "primary_call prompt =
     \<lparr>model = primaryModel, timeout = Some 5000, inputs = prompt, lang_params = None\<rparr>"

definition backup_call :: "string \<Rightarrow> call" where
  "backup_call prompt =
     \<lparr>model = backupModel, timeout = None, inputs = prompt, lang_params = None\<rparr>"

text \<open>The generation path: the response and the requests made, in order.\<close>

definition generate ::
  "chat_env \<Rightarrow> string \<Rightarrow> string list \<Rightarrow> ConversationContext \<Rightarrow> chat_response \<times> call list" where
  "generate env msg conversationHistory ctx =
     (let prompt = promptText conversationHistory msg
      in case attempt ''Hugging Face API error'' (fetch env (primary_call prompt)) of
           Inr raw \<Rightarrow> (finish env ctx raw primaryModel, [primary_call prompt])
         | Inl primaryError \<Rightarrow>
             (case attempt ''Backup model error'' (fetch env (backup_call prompt)) of
                Inr raw \<Rightarrow>
                  (finish env ctx raw backupModel, [primary_call prompt, backup_call prompt])
              | Inl backupError \<Rightarrow>
                  (api_failed env 0 backupError, [primary_call prompt, backup_call prompt])))"

subsection \<open>POST\<close>

record chat_body =
  message :: "string option"
  context_in :: "ConversationContext option"
  history :: "string list option"


section \<open>The translation route\<close>

definition INDIAN_LANGUAGE_MODELS :: "(string \<times> string) list" where
  "INDIAN_LANGUAGE_MODELS =
    [(''en-hi'', ''Helsinki-NLP/opus-mt-en-hi''),
     (''hi-en'', ''Helsinki-NLP/opus-mt-hi-en''),
     (''en-ta'', ''Helsinki-NLP/opus-mt-en-ta''),
     (''ta-en'', ''Helsinki-NLP/opus-mt-ta-en''),
     (''en-te'', ''Helsinki-NLP/opus-mt-en-ta''),
     (''te-en'', ''Helsinki-NLP/opus-mt-mul-en''),
     (''en-bn'', ''Helsinki-NLP/opus-mt-en-NORTH_INDIAN''),
     (''bn-en'', ''Helsinki-NLP/opus-mt-NORTH_INDIAN-en''),
     (''en-ml'', ''Helsinki-NLP/opus-mt-en-dra''),
     (''ml-en'', ''Helsinki-NLP/opus-mt-mul-en''),
     (''en-kn'', ''Helsinki-NLP/opus-mt-en-dra''),
     (''kn-en'', ''Helsinki-NLP/opus-mt-mul-en'')]"

definition BACKUP_MODELS :: "string list" where
  "BACKUP_MODELS = 
    [''facebook/mbart-large-50-many-to-many-mmt'',
     ''facebook/nllb-200-distilled-600M'',
     ''ai4bharat/indictrans2-indic-en-1B'']"

definition indicCodes :: "(string \<times> string) list" where
  "indicCodes =
    [(''en'', ''eng_Latn''),
     (''hi'', ''hin_Deva''),
     (''te'', ''tel_Telu''),
     (''ta'', ''tam_Taml''),
     (''kn'', ''kan_Knda''),
     (''ml'', ''mal_Mlym''),
     (''bn'', ''ben_Beng''),
     (''gu'', ''guj_Gujr''),
     (''mr'', ''mar_Deva''),
     (''pa'', ''pan_Guru''),
     (''or'', ''ory_Orya''),
     (''as'', ''asm_Beng'')]"

definition languageCodes :: "(string \<times> string) list" where
  "languageCodes =
    [(''english'', ''en''),
     (''spanish'', ''es''),
     (''french'', ''fr''),
     (''german'', ''de''),
     (''italian'', ''it''),
     (''portuguese'', ''pt''),
     (''russian'', ''ru''),
     (''japanese'', ''ja''),
     (''chinese'', ''zh''),
     (''korean'', ''ko''),
     (''arabic'', ''ar''),
     (''hindi'', ''hi''),
     (''telugu'', ''te''),
     (''tamil'', ''ta''),
     (''kannada'', ''kn''),
     (''malayalam'', ''ml''),
     (''bengali'', ''bn''),
     (''turkish'', ''tr''),
     (''dutch'', ''nl''),
     (''swedish'', ''sv''),
     (''polish'', ''pl''),
     (''vietnamese'', ''vi''),
     (''thai'', ''th'')]"

definition m2mCodes :: "(string \<times> string) list" where
  "m2mCodes =
    [(''english'', ''en_XX''),
     (''spanish'', ''es_XX''),
     (''french'', ''fr_XX''),
     (''german'', ''de_DE''),
     (''italian'', ''it_IT''),
     (''portuguese'', ''pt_XX''),
     (''russian'', ''ru_RU''),
     (''japanese'', ''ja_XX''),
     (''chinese'', ''zh_CN''),
     (''korean'', ''ko_KR''),
     (''arabic'', ''ar_AR''),
     (''hindi'', ''hi_IN''),
     (''telugu'', ''te_IN''),
     (''tamil'', ''ta_IN''),
     (''kannada'', ''kn_IN''),
     (''malayalam'', ''ml_IN''),
     (''bengali'', ''bn_IN''),
     (''turkish'', ''tr_TR''),
     (''dutch'', ''nl_XX''),
     (''swedish'', ''sv_XX''),
     (''polish'', ''pl_XX''),
     (''vietnamese'', ''vi_VN''),
     (''thai'', ''th_TH'')]"

text \<open>\<open>a || d\<close> for a looked-up text \<open>a\<close> and a default \<open>d\<close>.\<close>

definition or_else :: "string option \<Rightarrow> string \<Rightarrow> string" where
  "or_else v d = (case v of Some (x # xs) \<Rightarrow> x # xs | _ \<Rightarrow> d)"

text \<open>\<open>a || b\<close> for two values that are texts or \<open>undefined\<close>.\<close>

definition js_or :: "string option \<Rightarrow> string option \<Rightarrow> string option" where
  "js_or a b = (if truthy a then a else b)"

definition isIndianLanguage :: "string \<Rightarrow> bool" where
  "isIndianLanguage code =
     (toLowerCase code \<in> set [''hi'', ''te'', ''ta'', ''kn'', ''ml'', ''bn'', ''gu'', ''mr'', ''pa'',
        ''or'', ''as'', ''sa''])"

definition getIndicCode :: "string \<Rightarrow> string" where
  "getIndicCode code = or_else (map_of indicCodes (toLowerCase code)) ''eng_Latn''"

definition getLanguageCode :: "string \<Rightarrow> string" where
  "getLanguageCode language =
     (let lowerCaseLanguage = toLowerCase language
      in if truthy (map_of languageCodes lowerCaseLanguage)
         then or_else (map_of languageCodes lowerCaseLanguage) []
         else if length lowerCaseLanguage = 2 then lowerCaseLanguage
         else ''en'')"

definition getM2MLangCode :: "string \<Rightarrow> string" where
  "getM2MLangCode language = or_else (map_of m2mCodes (toLowerCase language)) ''en_XX''"

text \<open>The model selected for a pair of language codes.\<close>

definition select_model :: "string \<Rightarrow> string \<Rightarrow> string" where
  "select_model sourceCode targetCode =
     (let isIndianLanguagePair = (isIndianLanguage sourceCode \<or> isIndianLanguage targetCode);
          languagePair = sourceCode @ ''-'' @ targetCode
      in if isIndianLanguagePair \<and> truthy (map_of INDIAN_LANGUAGE_MODELS languagePair)
         then or_else (map_of INDIAN_LANGUAGE_MODELS languagePair) []
         else ''Helsinki-NLP/opus-mt-'' @ sourceCode @ ''-'' @ targetCode)"

text \<open>The JSON a translation model answers with; an object carries what it has under
  \<open>translation_text\<close> and under \<open>generated_text\<close>.\<close>

datatype tr_item = TrItemNull | TrItem "string option" "string option"

datatype tr_json = TrArray "tr_item list" | TrObject "string option" "string option" | TrNull | TrOther

text \<open>The primary attempt sits directly in the outer \<open>try\<close> block: what it throws ends
  the request. Its value is the translation it found, \<open>None\<close> when it found none.\<close>

definition read_primary :: "tr_json \<Rightarrow> js_error + string option" where
  "read_primary result =
     (case result of
        TrArray [] \<Rightarrow> Inr None
      | TrArray (TrItemNull # _) \<Rightarrow> Inl (TypeError ''translation_text'')
      | TrArray (TrItem t g # _) \<Rightarrow> Inr (if truthy t then t else None)
      | TrObject t g \<Rightarrow> Inr (if truthy t then t else None)
      | TrNull \<Rightarrow> Inl (TypeError ''translation_text'')
      | TrOther \<Rightarrow> Inr None)"

definition primary_attempt :: "tr_json reply \<Rightarrow> js_error + string option" where
  "primary_attempt rep =
     (case rep of
        Rejected msg \<Rightarrow> Inl (FetchError msg)
      | Status n \<Rightarrow> Inr None
      | BadBody \<Rightarrow> Inl (FetchError ''json'')
      | Body result \<Rightarrow> read_primary result)"

text \<open>The specialized attempt and the backup attempts have a \<open>try\<close> block each, which
  swallows what they throw. Their value is \<open>Some v\<close> when they assign \<open>v\<close> to the
  translation (and their model to \<open>usedModel\<close>), \<open>None\<close> when they assign nothing.\<close>

definition read_indic :: "tr_json \<Rightarrow> string option option" where
  "read_indic result =
     (case result of
        TrArray [] \<Rightarrow> None
      | TrArray (TrItemNull # _) \<Rightarrow> None
      | TrArray (TrItem t g # _) \<Rightarrow> Some t
      | TrObject t g \<Rightarrow> if truthy t then Some t else None
      | TrNull \<Rightarrow> None
      | TrOther \<Rightarrow> None)"

definition read_backup :: "tr_json \<Rightarrow> string option option" where
  "read_backup backupResult =
     (case backupResult of
        TrArray [] \<Rightarrow> None
      | TrArray (TrItemNull # _) \<Rightarrow> None
      | TrArray (TrItem t g # _) \<Rightarrow> Some (js_or t g)
      | TrObject t g \<Rightarrow> if truthy t then Some (js_or t g) else None
      | TrNull \<Rightarrow> None
      | TrOther \<Rightarrow> None)"

definition guarded_attempt :: "(tr_json \<Rightarrow> string option option) \<Rightarrow> tr_json reply \<Rightarrow> string option option" where
  "guarded_attempt rd rep = (case rep of Body result \<Rightarrow> rd result | _ \<Rightarrow> None)"

record progress =
  translation :: "string option"
  usedModel :: "string option"
  calls :: "call list"

definition indicModel :: string where
  "indicModel = ''ai4bharat/indictrans2-indic-en-1B''"

text \<open>The loop over \<open>BACKUP_MODELS\<close>.\<close>

fun try_backups :: "(call \<Rightarrow> tr_json reply) \<Rightarrow> (string \<Rightarrow> call) \<Rightarrow> string list \<Rightarrow> progress \<Rightarrow> progress" where
  "try_backups fetch_tr request [] st = st"
| "try_backups fetch_tr request (backup # others) st =
     (if truthy (translation st) then st
      else
        let st' = st\<lparr>calls := calls st @ [request backup]\<rparr>
        in case guarded_attempt read_backup (fetch_tr (request backup)) of
             Some v \<Rightarrow> st'\<lparr>translation := v, usedModel := Some backup\<rparr>
           | None \<Rightarrow> try_backups fetch_tr request others st')"

record translate_body =
  text_in :: "string option"
  sourceLang :: "string option"
  targetLang :: "string option"

record translate_response =
  tr_status :: nat
  tr_translation :: string
  tr_error :: "string option"
  tr_details :: "string option"
  tr_model_used :: "string option"
  is_indian_language_pair :: "bool option"
  modelsTried :: "string list"
  mockData :: bool

definition tr_plain :: "nat \<Rightarrow> string \<Rightarrow> translate_response" where
  "tr_plain st t = \<lparr>tr_status = st, tr_translation = t, tr_error = None, tr_details = None,
     tr_model_used = None, is_indian_language_pair = None, modelsTried = [], mockData = False\<rparr>"

definition message_of :: "js_error \<Rightarrow> string" where
  "message_of e = (case e of TypeError m \<Rightarrow> m | FetchError m \<Rightarrow> m | HttpError m \<Rightarrow> m)"

definition translate_text ::
  "(call \<Rightarrow> tr_json reply) \<Rightarrow> string \<Rightarrow> string \<Rightarrow> string \<Rightarrow> translate_response \<times> call list" where
  "translate_text fetch_tr txt srcLang tgtLang =
     (let sourceCode = getLanguageCode srcLang;
          targetCode = getLanguageCode tgtLang;
          isIndianLanguagePair = (isIndianLanguage sourceCode \<or> isIndianLanguage targetCode);
          primary = select_model sourceCode targetCode;
          first = \<lparr>model = primary, timeout = Some 6000, inputs = txt, lang_params = None\<rparr>
      in case primary_attempt (fetch_tr first) of
           Inl e \<Rightarrow>
             ((tr_plain 500 (''Error occurred: '' @ message_of e))
                \<lparr>tr_error := Some ''Failed to translate text'', tr_details := Some (message_of e)\<rparr>,
              [first])
         | Inr found_translation \<Rightarrow>
             let st0 = \<lparr>translation = found_translation,
                        usedModel = (if truthy found_translation then Some primary else None),
                        calls = [first]\<rparr>;
                 indic = \<lparr>model = indicModel, timeout = None, inputs = txt,
                          lang_params = Some (getIndicCode sourceCode, getIndicCode targetCode)\<rparr>;
                 st1 = (if \<not> truthy found_translation \<and> isIndianLanguagePair
                        then (let st' = st0\<lparr>calls := calls st0 @ [indic]\<rparr>
                              in case guarded_attempt read_indic (fetch_tr indic) of
                                   Some v \<Rightarrow> st'\<lparr>translation := v, usedModel := Some indicModel\<rparr>
                                 | None \<Rightarrow> st')
                        else st0);
                 st2 = (if \<not> truthy found_translation
                        then try_backups fetch_tr
                               (\<lambda>backup. \<lparr>model = backup, timeout = None, inputs = txt,
                                  lang_params = Some (getM2MLangCode srcLang, getM2MLangCode tgtLang)\<rparr>)
                               BACKUP_MODELS st1
                        else st1)
             in if \<not> truthy (translation st2)
                then ((tr_plain 200 (''Translation not available for '' @ srcLang @ '' to '' @ tgtLang
                          @ ''. Please try another language pair.''))
                        \<lparr>tr_error := Some ''All translation models failed'',
                         modelsTried := primary # BACKUP_MODELS\<rparr>, calls st2)
                else ((tr_plain 200 (or_else (translation st2) []))
                        \<lparr>tr_model_used := usedModel st2,
                         is_indian_language_pair := Some isIndianLanguagePair\<rparr>, calls st2))"

definition POST_translate ::
  "string option \<Rightarrow> translate_body option \<Rightarrow> (call \<Rightarrow> tr_json reply)
     \<Rightarrow> translate_response \<times> call list" where
  "POST_translate apiKey body fetch_tr =
     (if \<not> truthy apiKey
      then ((tr_plain 200 (''API key not configured. Please add your HUGGINGFACE_API_KEY to ''
               @ ''.env.local file.'')) \<lparr>mockData := True\<rparr>, [])
      else case body of
        None \<Rightarrow> ((tr_plain 400 ''Error: Could not parse request body.'')
                    \<lparr>tr_error := Some ''Invalid request body''\<rparr>, [])
      | Some b \<Rightarrow>
          if falsy (text_in b) \<or> falsy (sourceLang b) \<or> falsy (targetLang b)
          then ((tr_plain 400 ''Error: Missing required fields (text, sourceLang, or targetLang).'')
                  \<lparr>tr_error := Some ''Text, source language, and target language are required''\<rparr>, [])
          else translate_text fetch_tr (or_else (text_in b) []) (or_else (sourceLang b) [])
                 (or_else (targetLang b) []))"

section \<open>The voice assistant\<close>

text \<open>Three of the built-in responses are made from the clock when the module is loaded.\<close>

record clock =
  timeString :: string
  weekday :: string
  longDate :: string

definition BUILT_IN_RESPONSES :: "clock \<Rightarrow> (string \<times> string) list" where
  "BUILT_IN_RESPONSES clk =
    [(''hello'', ''Hello! How can I assist you today?''),
     (''hi'', ''Hi there! How can I help you?''),
     (''hey'', ''Hey! What can I do for you?''),
     (''how are you'', ''I'm doing well, thank you! How can I help you?''),
     (''what can you do'', ''I can help with various tasks including: answering questions, checking weather, searching information, providing news updates, analyzing sentiment, and translating text. Just ask what you need!''),
     (''help'', ''I can assist with various tasks. Try asking about the weather, news, or just chat with me about any topic!''),
     (''what time is it'', ''It's currently '' @ timeString clk @ ''.''),
     (''what day is it'', ''Today is '' @ weekday clk @ ''.''),
     (''what is the date'', ''Today's date is '' @ longDate clk @ ''.''),
     (''who are you'', ''I'm your AI voice assistant, designed to help you with various tasks through voice commands or text input.''),
     (''what is your name'', ''I'm your AI assistant, designed to make your life easier through voice and text interaction.''),
     (''what is the weather'', ''I'd need to know your location to provide accurate weather information. You can say something like 'What's the weather in London?'' @ [CHR 0x27]),
     (''tell me a joke'', ''Why don't scientists trust atoms? Because they make up everything!''),
     (''another joke'', ''What do you call a fake noodle? An impasta!''),
     (''thank you'', ''You're welcome! Is there anything else I can help you with?''),
     (''thanks'', ''No problem at all! Let me know if you need anything else.'')]"

text \<open>\<open>Object.keys(BUILT_IN_RESPONSES)\<close>: the keys in the order of the literal.\<close>

definition builtin_keys :: "clock \<Rightarrow> string list" where
  "builtin_keys clk = map fst (BUILT_IN_RESPONSES clk)"

definition partial_match :: "string \<Rightarrow> string \<Rightarrow> bool" where
  "partial_match normalizedInput key =
     (includes_str normalizedInput key \<or> includes_str key normalizedInput)"

definition word_overlap :: "string \<Rightarrow> string \<Rightarrow> bool" where
  "word_overlap normalizedInput key =
     (let keyWords = split key '' '';
          inputWords = split normalizedInput '' '';
          overlap = filter (\<lambda>w. w \<in> set inputWords) keyWords
      in 0 < length overlap \<and> real (length keyWords) / 2 \<le> real (length overlap))"

definition findBestMatch :: "clock \<Rightarrow> string \<Rightarrow> string option" where
  "findBestMatch clk input =
     (let normalizedInput = trim (toLowerCase input)
      in if truthy (map_of (BUILT_IN_RESPONSES clk) normalizedInput)
         then map_of (BUILT_IN_RESPONSES clk) normalizedInput
         else case find (partial_match normalizedInput) (builtin_keys clk) of
                Some key \<Rightarrow> map_of (BUILT_IN_RESPONSES clk) key
              | None \<Rightarrow>
                 (case find (word_overlap normalizedInput) (builtin_keys clk) of
                    Some key \<Rightarrow> map_of (BUILT_IN_RESPONSES clk) key
                  | None \<Rightarrow> None))"

definition generalAnswers :: "string list" where
  "generalAnswers = 
    [''Based on my knowledge, '', ''I believe '', ''As far as I understand, '', ''From what I know, '']"

definition COMMON_QUESTIONS :: "(string \<times> string) list" where
  "COMMON_QUESTIONS =
    [(''what is the capital of france'', ''The capital of France is Paris.''),
     (''how tall is mount everest'', ''Mount Everest is approximately 29,032 feet (8,849 meters) tall, making it the highest mountain on Earth.''),
     (''who wrote romeo and juliet'', ''Romeo and Juliet was written by William Shakespeare.''),
     (''what is the largest planet'', ''Jupiter is the largest planet in our solar system.''),
     (''when was the declaration of independence signed'', ''The Declaration of Independence was signed on July 4, 1776.''),
     (''how many continents are there'', ''There are seven continents: Africa, Antarctica, Asia, Europe, North America, Australia/Oceania, and South America.''),
     (''what is the speed of light'', ''The speed of light in a vacuum is approximately 299,792,458 meters per second (about 186,282 miles per second).''),
     (''who invented the telephone'', ''Alexander Graham Bell is credited with inventing the first practical telephone in 1876.''),
     (''what is the chemical symbol for gold'', ''The chemical symbol for gold is Au (from the Latin word '' @ [CHR 0x22] @ ''aurum'' @ [CHR 0x22] @ '').''),
     (''how many elements are in the periodic table'', ''There are 118 elements in the modern periodic table.'')]"

definition calculateSimilarity :: "string \<Rightarrow> string \<Rightarrow> real" where
  "calculateSimilarity a b =
     (let aWords = split (toLowerCase a) '' '';
          bWords = split (toLowerCase b) '' '';
          commonWords = filter (\<lambda>w. w \<in> set bWords) aWords;
          totalUniqueWords = length (remdups (aWords @ bWords))
      in real (length commonWords) / real totalUniqueWords)"

definition checkCommonQuestion :: "string \<Rightarrow> string option" where
  "checkCommonQuestion txt =
     (let normalizedText = trim (toLowerCase txt)
      in if truthy (map_of COMMON_QUESTIONS normalizedText)
         then map_of COMMON_QUESTIONS normalizedText
         else map_option snd
           (find (\<lambda>qa. includes_str normalizedText (fst qa) \<or> includes_str (fst qa) normalizedText
                    \<or> 7 / 10 < calculateSimilarity normalizedText (fst qa)) COMMON_QUESTIONS))"

text \<open>What the assistant does with an input, in order: it shows the user's message, then
  either answers by itself or hands the text to \<open>sendMessageToAPI\<close>, the only place that
  calls the chat route.\<close>

datatype action = AddUserMessage string | AssistantReply string | SendToAPI string

definition common_prefix :: "real \<Rightarrow> string" where
  "common_prefix u =
     (case element_at generalAnswers (random_index u (length generalAnswers)) of
        Some p \<Rightarrow> p | None \<Rightarrow> ''undefined'')"

definition processVoiceInput :: "clock \<Rightarrow> real \<Rightarrow> string \<Rightarrow> action list" where
  "processVoiceInput clk u txt =
     AddUserMessage txt #
     (let builtInResponse = findBestMatch clk txt
      in if truthy builtInResponse then [AssistantReply (or_else builtInResponse [])]
         else
           let commonAnswer = checkCommonQuestion txt
           in if truthy commonAnswer
              then [AssistantReply
                     (if starts_with (toLowerCase txt) ''what'' \<or> starts_with (toLowerCase txt) ''who''
                         \<or> starts_with (toLowerCase txt) ''when'' \<or> starts_with (toLowerCase txt) ''how''
                      then or_else commonAnswer []
                      else common_prefix u @ toLowerCase (or_else commonAnswer []))]
              else [SendToAPI txt])"

definition handleSubmit :: "clock \<Rightarrow> real \<Rightarrow> string \<Rightarrow> action list" where
  "handleSubmit clk u inputText =
     (if trim inputText = [] then []
      else
        AddUserMessage inputText #
        (let builtInResponse = findBestMatch clk (toLowerCase inputText)
         in if truthy builtInResponse then [AssistantReply (or_else builtInResponse [])]
            else
              let commonAnswer = checkCommonQuestion inputText
              in if truthy commonAnswer
                 then [AssistantReply
                        (if starts_with (toLowerCase inputText) ''what''
                            \<or> starts_with (toLowerCase inputText) ''who''
                         then or_else commonAnswer []
                         else common_prefix u @ toLowerCase (or_else commonAnswer []))]
                 else [SendToAPI inputText]))"

section \<open>Notions used to state the properties\<close>




text \<open>Patterns every match of which consumes input, the groups of a pattern, and patterns
  every match of which leaves group \<open>i\<close> with a non-empty text.\<close>

fun consuming :: "regex \<Rightarrow> bool" where
  "consuming (Lit l) = (l \<noteq> [])"
| "consuming (Cls m) = True"
| "consuming Dot = True"
| "consuming (Seq a b) = (consuming a \<or> consuming b)"
| "consuming (Alt a b) = (consuming a \<and> consuming b)"
| "consuming (Rep mn mx g r) = (0 < mn \<and> mx \<noteq> Some 0 \<and> consuming r)"
| "consuming (Grp i r) = consuming r"

fun groups :: "regex \<Rightarrow> nat set" where
  "groups (Lit l) = {}"
| "groups (Cls m) = {}"
| "groups Dot = {}"
| "groups (Seq a b) = groups a \<union> groups b"
| "groups (Alt a b) = groups a \<union> groups b"
| "groups (Rep mn mx g r) = groups r"
| "groups (Grp i r) = insert i (groups r)"

fun binds :: "nat \<Rightarrow> regex \<Rightarrow> bool" where
  "binds i (Lit l) = False"
| "binds i (Cls m) = False"
| "binds i Dot = False"
| "binds i (Seq a b) = ((binds i a \<and> i \<notin> groups b) \<or> binds i b)"
| "binds i (Alt a b) = (binds i a \<and> binds i b)"
| "binds i (Rep mn mx g r) = False"
| "binds i (Grp j r) = (if i = j then consuming r else binds i r)"

definition rep_next :: "nat \<Rightarrow> nat option \<Rightarrow> bool \<Rightarrow> regex \<Rightarrow> regex" where
  "rep_next mn mx g r = Rep (mn - 1) (map_option (\<lambda>k. k - 1) mx) g r"

section \<open>Sample inputs\<close>

text \<open>Concrete requests, clocks and surroundings at which the properties below are
  evaluated.\<close>

definition sample_chat_env :: chat_env where
  "sample_chat_env = \<lparr>fetch = (\<lambda>c. Rejected ''The operation was aborted due to timeout''),
     random = (\<lambda>k. 1 / 2), localeTime = ''10:15:00 AM'', localeDate = ''Monday, November 2, 2026''\<rparr>"


definition sample_clock :: clock where
  "sample_clock = \<lparr>timeString = ''10:15:00 AM'', weekday = ''Monday'',
     longDate = ''Monday, November 2, 2026''\<rparr>"

definition sample_translate_body :: translate_body where
  "sample_translate_body =
     \<lparr>text_in = Some ''Good morning'', sourceLang = Some ''English'', targetLang = Some ''French''\<rparr>"

section \<open>The matcher: what every match satisfies\<close>

declare run.simps [simp del]

lemma lit_match_length: "lit_match l s = Some rest \<Longrightarrow> length rest + length l = length s"
  by (induction l s rule: lit_match.induct) (auto split: if_splits)

lemma run_Seq_iff:
  "(s', c') \<in> set (run (Seq a b) s c) \<longleftrightarrow>
     (\<exists>s1 c1. (s1, c1) \<in> set (run a s c) \<and> length s1 \<le> length s \<and> (s', c') \<in> set (run b s1 c1))"
proof
  assume "(s', c') \<in> set (run (Seq a b) s c)"
  then obtain p where p: "p \<in> set (run a s c)"
      "(s', c') \<in> set (if length (fst p) \<le> length s then run b (fst p) (snd p) else [])"
    by (auto simp: run.simps)
  moreover obtain s1 c1 where "p = (s1, c1)" by (cases p)
  ultimately show "\<exists>s1 c1. (s1, c1) \<in> set (run a s c) \<and> length s1 \<le> length s \<and> (s', c') \<in> set (run b s1 c1)"
    by (auto split: if_splits)
next
  assume "\<exists>s1 c1. (s1, c1) \<in> set (run a s c) \<and> length s1 \<le> length s \<and> (s', c') \<in> set (run b s1 c1)"
  then obtain s1 c1 where q: "(s1, c1) \<in> set (run a s c)" "length s1 \<le> length s"
      "(s', c') \<in> set (run b s1 c1)"
    by blast
  then have "(s', c') \<in> set (if length (fst (s1, c1)) \<le> length s
      then run b (fst (s1, c1)) (snd (s1, c1)) else [])"
    by simp
  with q(1) show "(s', c') \<in> set (run (Seq a b) s c)"
    unfolding run.simps set_concat set_map by blast
qed

lemma run_Rep_more:
  "(s', c') \<in> set (concat (map (\<lambda>p.
        if length (fst p) < length s \<or> (0 < mn \<and> length (fst p) = length s)
        then run (rep_next mn mx g r) (fst p) (snd p) else []) (run r s c))) \<longleftrightarrow>
   (\<exists>s1 c1. (s1, c1) \<in> set (run r s c) \<and>
        (length s1 < length s \<or> (0 < mn \<and> length s1 = length s)) \<and>
        (s', c') \<in> set (run (rep_next mn mx g r) s1 c1))"
  (is "?L \<longleftrightarrow> ?R")
proof
  assume ?L
  then obtain p where p: "p \<in> set (run r s c)"
      "(s', c') \<in> set (if length (fst p) < length s \<or> (0 < mn \<and> length (fst p) = length s)
        then run (rep_next mn mx g r) (fst p) (snd p) else [])"
    by auto
  moreover obtain s1 c1 where "p = (s1, c1)" by (cases p)
  ultimately show ?R by (auto split: if_splits)
next
  assume ?R
  then obtain s1 c1 where q: "(s1, c1) \<in> set (run r s c)"
      "length s1 < length s \<or> (0 < mn \<and> length s1 = length s)"
      "(s', c') \<in> set (run (rep_next mn mx g r) s1 c1)"
    by blast
  then have "(s', c') \<in> set (if length (fst (s1, c1)) < length s \<or> (0 < mn \<and> length (fst (s1, c1)) = length s)
      then run (rep_next mn mx g r) (fst (s1, c1)) (snd (s1, c1)) else [])"
    by simp
  with q(1) show ?L
    unfolding set_concat set_map by blast
qed

lemma run_Rep_iff:
  "(s', c') \<in> set (run (Rep mn mx g r) s c) \<longleftrightarrow>
     (if mx = Some 0 then (s', c') = (s, c)
      else (mn = 0 \<and> (s', c') = (s, c)) \<or>
        (\<exists>s1 c1. (s1, c1) \<in> set (run r s c) \<and>
           (length s1 < length s \<or> (0 < mn \<and> length s1 = length s)) \<and>
           (s', c') \<in> set (run (rep_next mn mx g r) s1 c1)))"
proof (cases "mx = Some 0")
  case True
  then show ?thesis by (simp add: run.simps)
next
  case False
  have "(s', c') \<in> set (run (Rep mn mx g r) s c) \<longleftrightarrow>
      (mn = 0 \<and> (s', c') = (s, c)) \<or> (s', c') \<in> set (concat (map (\<lambda>p.
        if length (fst p) < length s \<or> (0 < mn \<and> length (fst p) = length s)
        then run (rep_next mn mx g r) (fst p) (snd p) else []) (run r s c)))"
    using False unfolding run.simps(7)[of mn mx g r s c] rep_next_def Let_def
    by (cases "0 < mn"; cases g) (simp_all only: if_True if_False set_append set_simps Un_iff insert_iff empty_iff, auto)
  then show ?thesis using False unfolding run_Rep_more by simp
qed

lemma run_Grp_iff:
  "(s', c') \<in> set (run (Grp i r) s c) \<longleftrightarrow>
     (\<exists>c1. (s', c1) \<in> set (run r s c) \<and> c' = (i, take (length s - length s') s) # c1)"
proof
  assume "(s', c') \<in> set (run (Grp i r) s c)"
  then obtain p where "p \<in> set (run r s c)"
      "(s', c') = (fst p, (i, take (length s - length (fst p)) s) # snd p)"
    unfolding run.simps set_map by blast
  moreover obtain s1 c1 where "p = (s1, c1)" by (cases p)
  ultimately show "\<exists>c1. (s', c1) \<in> set (run r s c) \<and> c' = (i, take (length s - length s') s) # c1"
    by auto
next
  assume "\<exists>c1. (s', c1) \<in> set (run r s c) \<and> c' = (i, take (length s - length s') s) # c1"
  then obtain c1 where q: "(s', c1) \<in> set (run r s c)" "c' = (i, take (length s - length s') s) # c1"
    by blast
  have "(s', c') = (\<lambda>p. (fst p, (i, take (length s - length (fst p)) s) # snd p)) (s', c1)"
    using q(2) by simp
  from this q(1) show "(s', c') \<in> set (run (Grp i r) s c)"
    unfolding run.simps set_map by (rule image_eqI)
qed

lemma run_Alt_iff:
  "(s', c') \<in> set (run (Alt a b) s c) \<longleftrightarrow> (s', c') \<in> set (run a s c) \<or> (s', c') \<in> set (run b s c)"
  by (simp add: run.simps)

lemma run_shorter: "(s', c') \<in> set (run r s c) \<Longrightarrow> length s' \<le> length s"
proof (induction r s c arbitrary: s' c' rule: run.induct)
  case (1 l s c)
  then show ?case by (cases "lit_match l s") (auto simp: run.simps dest: lit_match_length)
next
  case (2 m s c)
  then show ?case by (auto simp: run.simps split: list.splits if_splits)
next
  case (3 s c)
  then show ?case by (auto simp: run.simps split: list.splits if_splits)
next
  case (4 a b s c)
  from "4.prems" obtain s1 c1 where q: "(s1, c1) \<in> set (run a s c)" "length s1 \<le> length s"
      "(s', c') \<in> set (run b s1 c1)"
    unfolding run_Seq_iff by blast
  from "4.IH"(2)[of "(s1, c1)" s' c'] q show ?case by simp
next
  case (5 a b s c)
  then show ?case unfolding run_Alt_iff by blast
next
  case (6 i r s c)
  then show ?case unfolding run_Grp_iff by blast
next
  case (7 mn mx g r s c)
  show ?case
  proof (cases "mx = Some 0")
    case True
    with "7.prems" show ?thesis by (simp add: run_Rep_iff)
  next
    case False
    from "7.prems" False consider "(s', c') = (s, c)" | s1 c1 where "(s1, c1) \<in> set (run r s c)"
        "length s1 < length s \<or> (0 < mn \<and> length s1 = length s)"
        "(s', c') \<in> set (run (rep_next mn mx g r) s1 c1)"
      unfolding run_Rep_iff by auto
    then show ?thesis
    proof cases
      case 1 then show ?thesis by simp
    next
      case 2
      from "7.IH"(2)[OF False, of "(s1, c1)" s' c'] 2 show ?thesis by (auto simp: rep_next_def)
    qed
  qed
qed

text \<open>The tests on lengths in the cases of sequence and quantifier hold for every
  match, so they only serve the termination argument: a sequence continues after every
  match of its first part, and a quantifier drops exactly the iterations that consumed
  nothing once its minimum is used up.\<close>

lemma run_Seq_plain:
  "run (Seq a b) s c = concat (map (\<lambda>p. run b (fst p) (snd p)) (run a s c))"
proof -
  have "map (\<lambda>p. if length (fst p) \<le> length s then run b (fst p) (snd p) else []) (run a s c)
      = map (\<lambda>p. run b (fst p) (snd p)) (run a s c)"
  proof (rule map_cong[OF refl])
    fix p assume "p \<in> set (run a s c)"
    then have "(fst p, snd p) \<in> set (run a s c)" by simp
    then have "length (fst p) \<le> length s" by (rule run_shorter)
    then show "(if length (fst p) \<le> length s then run b (fst p) (snd p) else [])
        = run b (fst p) (snd p)" by simp
  qed
  then show ?thesis by (subst run.simps) (rule arg_cong[where f = concat])
qed

lemma run_Rep_plain:
  assumes "mx \<noteq> Some 0"
  shows "run (Rep mn mx g r) s c =
     (let more = concat (map (\<lambda>p.
            if mn = 0 \<and> length (fst p) = length s then []
            else run (Rep (mn - 1) (map_option (\<lambda>k. k - 1) mx) g r) (fst p) (snd p)) (run r s c))
      in if 0 < mn then more else if g then more @ [(s, c)] else (s, c) # more)"
proof -
  have eq: "map (\<lambda>p. if length (fst p) < length s \<or> (0 < mn \<and> length (fst p) = length s)
              then run (Rep (mn - 1) (map_option (\<lambda>k. k - 1) mx) g r) (fst p) (snd p)
              else []) (run r s c)
      = map (\<lambda>p. if mn = 0 \<and> length (fst p) = length s then []
            else run (Rep (mn - 1) (map_option (\<lambda>k. k - 1) mx) g r) (fst p) (snd p)) (run r s c)"
  proof (rule map_cong[OF refl])
    fix p assume "p \<in> set (run r s c)"
    then have "(fst p, snd p) \<in> set (run r s c)" by simp
    then have "length (fst p) \<le> length s" by (rule run_shorter)
    then show "(if length (fst p) < length s \<or> (0 < mn \<and> length (fst p) = length s)
              then run (Rep (mn - 1) (map_option (\<lambda>k. k - 1) mx) g r) (fst p) (snd p)
              else [])
       = (if mn = 0 \<and> length (fst p) = length s then []
            else run (Rep (mn - 1) (map_option (\<lambda>k. k - 1) mx) g r) (fst p) (snd p))"
      by auto
  qed
  show ?thesis by (subst run.simps) (simp only: assms if_False eq)
qed

lemma run_consuming: "consuming r \<Longrightarrow> (s', c') \<in> set (run r s c) \<Longrightarrow> length s' < length s"
proof (induction r arbitrary: s c s' c')
  case (Lit l)
  then have "lit_match l s = Some s'" "l \<noteq> []"
    by (cases "lit_match l s"; simp add: run.simps)+
  from lit_match_length[OF this(1)] this(2) show ?case by (cases l) auto
next
  case (Cls m)
  then show ?case by (auto simp: run.simps split: list.splits if_splits)
next
  case Dot
  then show ?case by (auto simp: run.simps split: list.splits if_splits)
next
  case (Seq a b)
  from Seq.prems(2) obtain s1 c1 where q: "(s1, c1) \<in> set (run a s c)" "length s1 \<le> length s"
      "(s', c') \<in> set (run b s1 c1)"
    unfolding run_Seq_iff by blast
  from Seq.prems(1) have "consuming a \<or> consuming b" by simp
  then show ?case
  proof
    assume "consuming a"
    from Seq.IH(1)[OF this q(1)] run_shorter[OF q(3)] show ?thesis by simp
  next
    assume "consuming b"
    from Seq.IH(2)[OF this q(3)] q(2) show ?thesis by simp
  qed
next
  case (Alt a b)
  then show ?case unfolding run_Alt_iff by auto
next
  case (Rep mn mx g r)
  from Rep.prems obtain s1 c1 where q: "(s1, c1) \<in> set (run r s c)"
      "(s', c') \<in> set (run (rep_next mn mx g r) s1 c1)"
    unfolding run_Rep_iff by auto
  from Rep.IH[OF _ q(1)] Rep.prems(1) run_shorter[OF q(2)] show ?case by simp
next
  case (Grp i r)
  then show ?case unfolding run_Grp_iff by auto
qed

lemma run_keeps: "i \<notin> groups r \<Longrightarrow> (s', c') \<in> set (run r s c) \<Longrightarrow> map_of c' i = map_of c i"
proof (induction r s c arbitrary: s' c' rule: run.induct)
  case (1 l s c)
  then show ?case by (cases "lit_match l s") (auto simp: run.simps)
next
  case (2 m s c)
  then show ?case by (auto simp: run.simps split: list.splits if_splits)
next
  case (3 s c)
  then show ?case by (auto simp: run.simps split: list.splits if_splits)
next
  case (4 a b s c)
  from "4.prems"(2) obtain s1 c1 where q: "(s1, c1) \<in> set (run a s c)" "length s1 \<le> length s"
      "(s', c') \<in> set (run b s1 c1)"
    unfolding run_Seq_iff by blast
  from "4.IH"(1)[OF _ q(1)] "4.IH"(2)[of "(s1, c1)" s' c'] q "4.prems"(1) show ?case by simp
next
  case (5 a b s c)
  then show ?case unfolding run_Alt_iff by auto
next
  case (6 i r s c)
  then show ?case unfolding run_Grp_iff by auto
next
  case (7 mn mx g r s c)
  show ?case
  proof (cases "mx = Some 0")
    case True
    with "7.prems" show ?thesis by (simp add: run_Rep_iff)
  next
    case False
    from "7.prems"(2) False consider "(s', c') = (s, c)" | s1 c1 where "(s1, c1) \<in> set (run r s c)"
        "length s1 < length s \<or> (0 < mn \<and> length s1 = length s)"
        "(s', c') \<in> set (run (rep_next mn mx g r) s1 c1)"
      unfolding run_Rep_iff by auto
    then show ?thesis
    proof cases
      case 1 then show ?thesis by simp
    next
      case 2
      from "7.IH"(1)[OF False _ 2(1)] "7.IH"(2)[OF False, of "(s1, c1)" s' c'] 2 "7.prems"(1)
      show ?thesis by (auto simp: rep_next_def)
    qed
  qed
qed

lemma run_binds:
  "binds i r \<Longrightarrow> (s', c') \<in> set (run r s c) \<Longrightarrow> \<exists>t. map_of c' i = Some t \<and> t \<noteq> []"
proof (induction r arbitrary: s c s' c')
  case (Seq a b)
  from Seq.prems(2) obtain s1 c1 where q: "(s1, c1) \<in> set (run a s c)" "length s1 \<le> length s"
      "(s', c') \<in> set (run b s1 c1)"
    unfolding run_Seq_iff by blast
  from Seq.prems(1) have "(binds i a \<and> i \<notin> groups b) \<or> binds i b" by simp
  then show ?case
  proof
    assume h: "binds i a \<and> i \<notin> groups b"
    from Seq.IH(1)[OF _ q(1)] h run_keeps[OF _ q(3)] show ?thesis by simp
  next
    assume "binds i b"
    from Seq.IH(2)[OF this q(3)] show ?thesis .
  qed
next
  case (Alt a b)
  then show ?case unfolding run_Alt_iff by auto
next
  case (Grp j r)
  from Grp.prems(2) obtain c1 where q: "(s', c1) \<in> set (run r s c)"
      "c' = (j, take (length s - length s') s) # c1"
    unfolding run_Grp_iff by blast
  show ?case
  proof (cases "i = j")
    case True
    with Grp.prems(1) have "consuming r" by simp
    from run_consuming[OF this q(1)] have "take (length s - length s') s \<noteq> []" by auto
    with True q(2) show ?thesis by simp
  next
    case False
    with Grp.prems(1) have "binds i r" by simp
    from Grp.IH[OF this q(1)] False q(2) show ?thesis by simp
  qed
qed simp_all

lemma search_Some: "search r s = Some caps \<Longrightarrow> \<exists>s0 s'. (s', caps) \<in> set (run r s0 [])"
proof (induction s)
  case Nil
  then obtain p ps where "run r [] [] = p # ps" "snd p = caps"
    by (cases "run r [] []") auto
  then have "(fst p, caps) \<in> set (run r [] [])" by (cases p) simp
  then show ?case by blast
next
  case (Cons x xs)
  show ?case
  proof (cases "run r (x # xs) []")
    case Nil
    with Cons show ?thesis by simp
  next
    case (Cons p ps)
    with Cons.prems have "(fst p, caps) \<in> set (run r (x # xs) [])" by (cases p) simp
    then show ?thesis by blast
  qed
qed

lemma search_binds:
  "binds i r \<Longrightarrow> search r s \<noteq> None \<Longrightarrow> truthy (group (search r s) i)"
proof -
  assume b: "binds i r" and "search r s \<noteq> None"
  then obtain caps where c: "search r s = Some caps" by blast
  from search_Some[OF this] obtain s0 s' where "(s', caps) \<in> set (run r s0 [])" by blast
  from run_binds[OF b this] c show ?thesis by (auto simp: truthy_def group_def)
qed

lemma binds_weather: "binds 1 weather_pattern"
  by (simp add: weather_pattern_def)

lemma binds_stockPrice: "binds 1 stockPrice_pattern"
  by (simp add: stockPrice_pattern_def)

lemma binds_translate: "binds 1 translate_pattern \<and> binds 2 translate_pattern"
  by (simp add: translate_pattern_def oneof_def)

lemma binds_sentiment: "binds 1 sentiment_pattern"
  by (simp add: sentiment_pattern_def)

section \<open>Properties of the command router\<close>

lemma found_one:
  "truthy v \<Longrightarrow> found n [trim_of v] = Inr \<lparr>command = Some n, params = [trim (the v)]\<rparr>"
  by (cases v) (simp_all add: truthy_def found_def trim_of_def)

lemma found_two:
  "truthy v \<Longrightarrow> truthy w \<Longrightarrow>
     found n [trim_of v, trim_of w] = Inr \<lparr>command = Some n, params = [trim (the v), trim (the w)]\<rparr>"
  by (cases v; cases w) (simp_all add: truthy_def found_def trim_of_def)

lemma weather_hit:
  "search weather_pattern t \<noteq> None \<Longrightarrow> truthy (group (search weather_pattern t) 1)"
  using binds_weather by (rule search_binds)

lemma stock_hit:
  "search stockPrice_pattern t \<noteq> None \<Longrightarrow> truthy (group (search stockPrice_pattern t) 1)"
  using binds_stockPrice by (rule search_binds)

lemma translate_hit:
  "search translate_pattern t \<noteq> None \<Longrightarrow> truthy (group (search translate_pattern t) 1)"
  "search translate_pattern t \<noteq> None \<Longrightarrow> truthy (group (search translate_pattern t) 2)"
  using binds_translate by (simp_all add: search_binds)

lemma sentiment_hit:
  "search sentiment_pattern t \<noteq> None \<Longrightarrow> truthy (group (search sentiment_pattern t) 1)"
  using binds_sentiment by (rule search_binds)

lemmas router_hits = weather_hit stock_hit translate_hit sentiment_hit found_one found_two

text \<open>
  C2. \<open>detectCommands\<close> consults the patterns in the order help, time, date, joke,
  weather, stock, news, translate, sentiment and returns the command of the first pattern
  that matches the text anywhere, whatever later patterns would say; when no pattern
  matches, the command is \<open>null\<close>. (For weather, stock, translate and sentiment the code
  also asks that the captured groups are non-empty, which every match of these patterns
  guarantees.)
\<close>

theorem detectCommands_first_match:
  "\<exists>r. detectCommands text = Inr r \<and>
       command r = map_option fst (find (\<lambda>p. test (snd p) text) router_order)"
  by (simp add: detectCommands_def router_order_def test_def Let_def router_hits
      del: not_None_eq One_nat_def)

text \<open>
  C3. The specification, like the help text of the chat route, takes "What's the stock
  price of AAPL" for the stock command with the ticker AAPL. The code answers otherwise:
  the stock pattern accepts "stock" or "price" but not both words, and under the flag
  \<open>i\<close> its ticker class takes any letters, so the router returns the stock command with
  the parameter "price".
\<close>

theorem detectCommands_stock_price_of_AAPL:
  "detectCommands ''What's the stock price of AAPL''
     = Inr \<lparr>command = Some ''stock'', params = [''price'']\<rparr>"
  by code_simp

text \<open>
  C4. The specification, like the help text of the chat route, takes "tell me a joke" for
  the joke command. The joke pattern has the optional word "me" directly after "tell",
  without the space between them, so "tell me a joke about the weather" does not match
  it; no other pattern matches either, and the router returns no command.
\<close>

theorem detectCommands_joke_about_weather:
  "detectCommands ''tell me a joke about the weather'' = Inr \<lparr>command = None, params = []\<rparr>"
  by code_simp

text \<open>
  C5. \<open>detectCommands\<close> is a function of the text alone: it takes no surroundings and
  returns no requests. For every text it returns normally (nothing is thrown), and what
  it returns is \<open>null\<close> with no parameters or one of the nine commands with the number
  of parameters that command carries.
\<close>

theorem detectCommands_total:
  "\<exists>r. detectCommands text = Inr r \<and>
       (command r, length (params r)) \<in> set [(None, 0), (Some ''help'', 0), (Some ''time'', 0),
          (Some ''date'', 0), (Some ''joke'', 0), (Some ''weather'', 1), (Some ''stock'', 1),
          (Some ''news'', 1), (Some ''translate'', 2), (Some ''sentiment'', 1)]"
  by (simp add: detectCommands_def test_def Let_def router_hits del: not_None_eq One_nat_def)

text \<open>
  Further properties of the router. Every text in which the help pattern matches is the
  help command, without parameters, whatever else it says.
\<close>

theorem detectCommands_help:
  "test help_pattern t \<Longrightarrow> detectCommands t = Inr \<lparr>command = Some ''help'', params = []\<rparr>"
  by (simp add: detectCommands_def)

theorem detectCommands_help_witness:
  "test help_pattern ''I need some HELP here''
   \<and> detectCommands ''I need some HELP here'' = Inr \<lparr>command = Some ''help'', params = []\<rparr>"
proof -
  have h: "test help_pattern ''I need some HELP here''" by code_simp
  from h detectCommands_help[OF h] show ?thesis by simp
qed

text \<open>"What's the weather in Paris?" is the weather command for Paris.\<close>

theorem detectCommands_weather_in_Paris:
  "detectCommands ''What's the weather in Paris?''
     = Inr \<lparr>command = Some ''weather'', params = [''Paris'']\<rparr>"
  by code_simp

section \<open>Properties of the chat route\<close>
















section \<open>Properties of the translation route\<close>





text \<open>
  C8. The specification asks that every request carries a timeout and that a request
  that fails or times out is followed by the next candidate, and the route's own comment
  says that the backup models are tried when the primary model failed. In the translation
  route the primary request has no handler of its own: when it times out, the route
  answers with status 500 and no other model is requested, although a backup would have
  translated the text. In the chat route, where both requests are made when the first is
  rejected, the primary request carries a timeout of 5000 ms and the backup request none.
\<close>

theorem translate_primary_timeout_stops_chain:
  "POST_translate (Some ''hf_key'') (Some sample_translate_body)
       (\<lambda>c. if model c = ''Helsinki-NLP/opus-mt-en-fr''
             then Rejected ''The operation was aborted due to timeout''
             else Body (TrArray [TrItem (Some ''Bonjour'') None]))
     = ((tr_plain 500 ''Error occurred: The operation was aborted due to timeout'')
          \<lparr>tr_error := Some ''Failed to translate text'',
           tr_details := Some ''The operation was aborted due to timeout''\<rparr>,
        [\<lparr>model = ''Helsinki-NLP/opus-mt-en-fr'', timeout = Some 6000, inputs = ''Good morning'',
           lang_params = None\<rparr>])
   \<and> map timeout (snd (generate sample_chat_env ''good morning'' []
        \<lparr>previousTopic = None, recentEntities = None, messageCount = 0, lastCommand = None\<rparr>))
      = [Some 5000, None]"
  by code_simp

text \<open>
  Further properties of the translation route. Whenever the primary request of a valid
  translation request is rejected, the route answers with status 500 and the message of
  the rejection, having made that one request only.
\<close>

theorem translate_rejected_primary_ends_request:
  assumes "truthy apiKey"
    and "truthy (text_in b)" "truthy (sourceLang b)" "truthy (targetLang b)"
    and "fetch_tr \<lparr>model = select_model (getLanguageCode (or_else (sourceLang b) []))
                             (getLanguageCode (or_else (targetLang b) [])),
                   timeout = Some 6000, inputs = or_else (text_in b) [], lang_params = None\<rparr>
           = Rejected msg"
  shows "\<exists>r. POST_translate apiKey (Some b) fetch_tr
           = (r, [\<lparr>model = select_model (getLanguageCode (or_else (sourceLang b) []))
                             (getLanguageCode (or_else (targetLang b) [])),
                   timeout = Some 6000, inputs = or_else (text_in b) [], lang_params = None\<rparr>])
         \<and> tr_status r = 500 \<and> tr_translation r = ''Error occurred: '' @ msg"
  using assms
  by (simp add: POST_translate_def falsy_def translate_text_def Let_def primary_attempt_def
      message_of_def tr_plain_def)

theorem translate_rejected_primary_ends_request_witness:
  "\<exists>r. POST_translate (Some ''hf_key'') (Some sample_translate_body) (\<lambda>c. Rejected ''fetch failed'')
           = (r, [\<lparr>model = ''Helsinki-NLP/opus-mt-en-fr'', timeout = Some 6000,
                   inputs = ''Good morning'', lang_params = None\<rparr>])
         \<and> tr_status r = 500 \<and> tr_translation r = ''Error occurred: fetch failed''"
proof -
  have k: "truthy (Some ''hf_key'')" by (simp add: truthy_def)
  have b: "truthy (text_in sample_translate_body)" "truthy (sourceLang sample_translate_body)"
    "truthy (targetLang sample_translate_body)"
    by (simp_all add: truthy_def sample_translate_body_def)
  have m: "select_model (getLanguageCode (or_else (sourceLang sample_translate_body) []))
             (getLanguageCode (or_else (targetLang sample_translate_body) []))
           = ''Helsinki-NLP/opus-mt-en-fr''"
    by code_simp
  have t: "or_else (text_in sample_translate_body) [] = ''Good morning''"
    by (simp add: sample_translate_body_def or_else_def)
  from translate_rejected_primary_ends_request[OF k b, of "\<lambda>c. Rejected ''fetch failed''" "''fetch failed''"]
  show ?thesis unfolding m t by simp
qed

text \<open>Whatever the request and whatever the inference service does, the route answers
  with a non-empty text in the field \<open>translation\<close>: a translation, a placeholder or
  an error message.\<close>

theorem POST_translate_answers_text:
  "tr_translation (fst (POST_translate apiKey body fetch_tr)) \<noteq> []"
proof -
  have a: "\<And>v. truthy v \<Longrightarrow> or_else v [] \<noteq> []"
    by (auto simp: truthy_def or_else_def split: option.splits list.splits)
  have "\<And>t s g. tr_translation (fst (translate_text fetch_tr t s g)) \<noteq> []"
    by (simp add: translate_text_def Let_def tr_plain_def a split: sum.splits)
  then show ?thesis
    by (simp add: POST_translate_def tr_plain_def split: option.splits)
qed

section \<open>Properties of the voice assistant\<close>

lemma lower_image: "l \<in> set (lower_letters @ latin1_lower) \<Longrightarrow>
   map_of (zip (upper_letters @ latin1_upper) (lower_letters @ latin1_lower)) l = None"
  unfolding lower_letters_def latin1_lower_def upper_letters_def latin1_upper_def
  by (simp, elim disjE; simp)

lemma lower_char_idem: "lower_char (lower_char c) = lower_char c"
proof (cases "map_of (zip (upper_letters @ latin1_upper) (lower_letters @ latin1_lower)) c")
  case None
  then show ?thesis by (simp add: lower_char_def)
next
  case (Some l)
  then have "(c, l) \<in> set (zip (upper_letters @ latin1_upper) (lower_letters @ latin1_lower))"
    by (rule map_of_SomeD)
  then have "l \<in> set (lower_letters @ latin1_lower)" by (rule set_zip_rightD)
  then have "lower_char l = l" by (simp only: lower_char_def lower_image option.case)
  with Some show ?thesis by (simp add: lower_char_def)
qed

lemma toLowerCase_idem: "toLowerCase (toLowerCase s) = toLowerCase s"
  by (simp add: toLowerCase_def lower_char_idem)

lemma white_space_lower: "white_space c \<Longrightarrow> lower_char c = c"
  unfolding white_space_def lower_letters_def latin1_lower_def upper_letters_def latin1_upper_def
    lower_char_def
  by (simp, elim disjE; simp)

lemma trim_Nil_iff: "trim s = [] \<longleftrightarrow> (\<forall>c \<in> set s. white_space c)"
proof -
  have "trim s = [] \<longleftrightarrow> (\<forall>c \<in> set (dropWhile white_space s). white_space c)"
    by (simp only: trim_def rev_is_Nil_conv dropWhile_eq_Nil_conv set_rev)
  also have "\<dots> \<longleftrightarrow> dropWhile white_space s = []"
  proof
    assume a: "\<forall>c \<in> set (dropWhile white_space s). white_space c"
    show "dropWhile white_space s = []"
    proof (rule ccontr)
      assume n: "dropWhile white_space s \<noteq> []"
      then have "\<not> white_space (hd (dropWhile white_space s))" by (rule hd_dropWhile)
      moreover from n have "hd (dropWhile white_space s) \<in> set (dropWhile white_space s)" by simp
      ultimately show False using a by blast
    qed
  next
    assume "dropWhile white_space s = []"
    then show "\<forall>c \<in> set (dropWhile white_space s). white_space c"
      by (simp del: dropWhile_eq_Nil_conv)
  qed
  also have "\<dots> \<longleftrightarrow> (\<forall>c \<in> set s. white_space c)" by (rule dropWhile_eq_Nil_conv)
  finally show ?thesis .
qed

lemma trim_lower_Nil: "trim s = [] \<Longrightarrow> trim (toLowerCase s) = []"
  unfolding trim_Nil_iff by (auto simp: toLowerCase_def white_space_lower)

lemma builtin_truthy:
  "map_of (BUILT_IN_RESPONSES clk) k = Some r \<Longrightarrow> r \<noteq> [] \<and> k \<noteq> []"
  unfolding BUILT_IN_RESPONSES_def by (auto split: if_splits)

lemma builtin_key_value:
  "k \<in> set (builtin_keys clk) \<Longrightarrow> \<exists>r. map_of (BUILT_IN_RESPONSES clk) k = Some r"
  unfolding builtin_keys_def by (metis map_of_eq_None_iff not_Some_eq set_map)

lemma findBestMatch_exact:
  assumes "map_of (BUILT_IN_RESPONSES clk) (trim (toLowerCase input)) = Some r"
  shows "findBestMatch clk input = Some r" "truthy (Some r)"
  using assms builtin_truthy[OF assms] by (simp_all add: findBestMatch_def truthy_def)

lemma find_first:
  "k \<in> set ks \<Longrightarrow> P k \<Longrightarrow> \<exists>f. find P ks = Some f \<and> f \<in> set ks \<and> P f"
  by (induction ks) auto

text \<open>
  C9. When the lower-cased, trimmed input is a key of \<open>BUILT_IN_RESPONSES\<close>, both entry
  points (\<open>processVoiceInput\<close> for speech, \<open>handleSubmit\<close> for the form) show the
  user's message, answer with the response stored under that key, and do nothing else:
  \<open>sendMessageToAPI\<close> is not called.
\<close>

theorem builtin_exact_match_is_local:
  assumes "map_of (BUILT_IN_RESPONSES clk) (trim (toLowerCase input)) = Some r"
  shows "processVoiceInput clk u input = [AddUserMessage input, AssistantReply r]
       \<and> handleSubmit clk u input = [AddUserMessage input, AssistantReply r]"
proof -
  from builtin_truthy[OF assms] have r: "r \<noteq> []" and n: "trim (toLowerCase input) \<noteq> []" by auto
  from n have t: "trim input \<noteq> []" using trim_lower_Nil by blast
  have a: "findBestMatch clk input = Some r" using assms by (rule findBestMatch_exact)
  have b: "findBestMatch clk (toLowerCase input) = Some r"
    using assms by (intro findBestMatch_exact) (simp add: toLowerCase_idem)
  obtain x xs where "r = x # xs" using r by (cases r) auto
  with a b t show ?thesis
    by (simp add: processVoiceInput_def handleSubmit_def truthy_def or_else_def)
qed

theorem builtin_exact_match_is_local_witness:
  "processVoiceInput sample_clock (1 / 2) ''Hello'' =
     [AddUserMessage ''Hello'', AssistantReply ''Hello! How can I assist you today?'']
   \<and> handleSubmit sample_clock (1 / 2) ''Hello'' =
     [AddUserMessage ''Hello'', AssistantReply ''Hello! How can I assist you today?'']"
proof -
  have "map_of (BUILT_IN_RESPONSES sample_clock) (trim (toLowerCase ''Hello''))
      = Some ''Hello! How can I assist you today?''"
    by code_simp
  from builtin_exact_match_is_local[OF this] show ?thesis .
qed

text \<open>
  C10. When some key of \<open>BUILT_IN_RESPONSES\<close> is contained in the normalized input or
  contains it, \<open>findBestMatch\<close> returns a built-in response and \<open>processVoiceInput\<close>
  answers with it without calling \<open>sendMessageToAPI\<close>. The response is the one of the
  normalized input itself when that is a key, and otherwise the one of the first key, in
  the order of the table, that is contained in the input or contains it.
\<close>

theorem builtin_partial_match_is_local:
  assumes "key \<in> set (builtin_keys clk)"
    and "partial_match (trim (toLowerCase input)) key"
  shows "let n = trim (toLowerCase input) in
     \<exists>first r. find (partial_match n) (builtin_keys clk) = Some first
       \<and> map_of (BUILT_IN_RESPONSES clk) (if n \<in> set (builtin_keys clk) then n else first) = Some r
       \<and> findBestMatch clk input = Some r
       \<and> processVoiceInput clk u input = [AddUserMessage input, AssistantReply r]"
proof -
  let ?n = "trim (toLowerCase input)"
  from find_first[of key "builtin_keys clk" "partial_match ?n", OF assms] obtain f
    where f: "find (partial_match ?n) (builtin_keys clk) = Some f" "f \<in> set (builtin_keys clk)"
    by blast
  show ?thesis
  proof (cases "?n \<in> set (builtin_keys clk)")
    case True
    from builtin_key_value[OF this] obtain r where r: "map_of (BUILT_IN_RESPONSES clk) ?n = Some r"
      by blast
    from builtin_truthy[OF r] obtain x xs where "r = x # xs" by (cases r) auto
    with r f True findBestMatch_exact[OF r] show ?thesis
      by (simp add: processVoiceInput_def Let_def truthy_def or_else_def)
  next
    case False
    then have none: "map_of (BUILT_IN_RESPONSES clk) ?n = None"
      by (simp add: builtin_keys_def map_of_eq_None_iff)
    from builtin_key_value[OF f(2)] obtain r where r: "map_of (BUILT_IN_RESPONSES clk) f = Some r"
      by blast
    from builtin_truthy[OF r] obtain x xs where "r = x # xs" by (cases r) auto
    with r f False none show ?thesis
      by (simp add: processVoiceInput_def findBestMatch_def Let_def truthy_def or_else_def)
  qed
qed

theorem builtin_partial_match_is_local_witness:
  "findBestMatch sample_clock ''this is fine'' = Some ''Hi there! How can I help you?''
   \<and> processVoiceInput sample_clock (1 / 2) ''this is fine'' =
       [AddUserMessage ''this is fine'', AssistantReply ''Hi there! How can I help you?'']"
proof -
  have k: "''hi'' \<in> set (builtin_keys sample_clock)" by code_simp
  have p: "partial_match (trim (toLowerCase ''this is fine'')) ''hi''" by code_simp
  have n: "trim (toLowerCase ''this is fine'') \<notin> set (builtin_keys sample_clock)" by code_simp
  have f: "find (partial_match (trim (toLowerCase ''this is fine''))) (builtin_keys sample_clock) = Some ''hi''"
    by code_simp
  have m: "map_of (BUILT_IN_RESPONSES sample_clock) ''hi'' = Some ''Hi there! How can I help you?''"
    by code_simp
  from builtin_partial_match_is_local[OF k p, of "1 / 2"] n f m show ?thesis
    by (simp add: Let_def)
qed

text \<open>
  It need not be the response of every key the input contains: "hi, tell me a joke"
  contains the key "tell me a joke" and is answered with the response of "hi".
\<close>

theorem builtin_partial_match_counterexample:
  "includes_str (trim (toLowerCase ''hi, tell me a joke'')) ''tell me a joke''
   \<and> map_of (BUILT_IN_RESPONSES sample_clock) ''tell me a joke''
       = Some ''Why don't scientists trust atoms? Because they make up everything!''
   \<and> findBestMatch sample_clock ''hi, tell me a joke'' = Some ''Hi there! How can I help you?''"
  by code_simp

end
